theory Spec2Isabelle
  imports Complex_Main "HOL-Library.Word"
begin

section \<open>Cat tagline generator: the pipeline of \<open>cat_tagline_generator.py\<close>\<close>

text \<open>
  The class \<open>CatTaglineGenerator\<close> fetches an image over HTTP, validates and saves it
  with Pillow, asks a chat model for a description and then for a tagline. The four
  collaborators (process environment, \<open>requests\<close>, Pillow, the OpenAI client) are
  parameters of the model, collected in the record \<open>world\<close>; every theorem holds for all
  of them. Each method takes the trace of collaborator calls made so far and returns it
  extended, so that "which calls were made, in which order, with which arguments" is a
  value. What the methods print is not modelled.

  A Python \<open>str\<close> is a \<open>string\<close>, one \<open>char\<close> per code point below 256; \<open>bytes\<close> is a
  list of 8-bit words.
\<close>

subsection \<open>Values\<close>

type_synonym byte = "8 word"
type_synonym bytes = "byte list"

text \<open>The values of the result dictionary (\<open>Dict[str, Any]\<close>): strings and one boolean.\<close>

datatype pyval = Str string | Bool bool

type_synonym result_dict = "string \<rightharpoonup> pyval"

text \<open>Python truthiness, as used by \<open>if api_key\<close>, \<open>if not image_data\<close>,
  \<open>if not description\<close>, \<open>if not tagline\<close> (an \<open>Optional\<close> of a sequence) and by the
  callers' \<open>if result.get("success")\<close>.\<close>

fun truthy :: "'a list option \<Rightarrow> bool" where
  "truthy None = False"
| "truthy (Some xs) = (xs \<noteq> [])"

fun truthy_val :: "pyval option \<Rightarrow> bool" where
  "truthy_val None = False"
| "truthy_val (Some (Bool b)) = b"
| "truthy_val (Some (Str s)) = (s \<noteq> [])"

text \<open>\<open>result.get("success")\<close>, read as a condition: how \<open>main\<close> (line 388) and the
  web front end's \<open>generate_cat_content\<close> read the success flag of a result.\<close>

definition get_success :: "result_dict \<Rightarrow> bool" where
  "get_success result = truthy_val (result ''success'')"

subsection \<open>Exceptions\<close>

datatype requests_error = Timeout | ConnectionError | HTTPError nat

datatype pil_error = UnidentifiedImageError | OSError

datatype api_error = AuthenticationError | RateLimitError | APIConnectionError | BadRequestError

datatype value_error = ValueError string

subsection \<open>Collaborator interfaces\<close>

record response =
  status_code :: nat
  content :: bytes

text \<open>\<open>Response.raise_for_status()\<close> of \<open>requests\<close>: an \<open>HTTPError\<close> for a client error
  (4xx) or a server error (5xx), nothing otherwise; the source's comment at the call says
  the same ("4xx or 5xx status codes").\<close>

definition raise_for_status :: "response \<Rightarrow> requests_error + unit" where
  "raise_for_status r =
     (if 400 \<le> status_code r \<and> status_code r < 600 then Inl (HTTPError (status_code r))
      else Inr ())"

datatype content_part = TextPart string | ImageUrlPart string

datatype content_value = Text string | Parts "content_part list"

datatype message = Message (role: string) (message_content: content_value)

record chat_request =
  model :: string
  messages :: "message list"
  max_tokens :: "nat option"
  temperature :: "rat option"

text \<open>A chat completion, as far as the code reads it: \<open>message.content\<close> of each element
  of \<open>response.choices\<close> (the API may send \<open>null\<close> content).\<close>

type_synonym chat_completion = "string option list"

datatype openai_client = OpenAI (client_api_key: string)

record 'img world =
  getenv :: "string \<rightharpoonup> string"
  http_get :: "string \<Rightarrow> nat \<Rightarrow> requests_error + response"
  image_open :: "bytes \<Rightarrow> pil_error + 'img"
  image_save :: "'img \<Rightarrow> string \<Rightarrow> pil_error + unit"
  chat_completions_create :: "openai_client \<Rightarrow> chat_request \<Rightarrow> api_error + chat_completion"

text \<open>The calls a run makes on its collaborators, oldest first. \<open>HttpGet url t\<close> is
  \<open>requests.get(url, timeout=t)\<close>; \<open>OpenAIInit\<close> builds the client and sends nothing.\<close>

datatype 'img event =
    OpenAIInit string
  | HttpGet string nat
  | ImageOpen bytes
  | ImageSave 'img string
  | ChatCreate openai_client chat_request

fun is_network_call :: "'img event \<Rightarrow> bool" where
  "is_network_call (HttpGet _ _) = True"
| "is_network_call (ChatCreate _ _) = True"
| "is_network_call _ = False"

subsection \<open>Library functions: \<open>base64.b64encode\<close> and \<open>str.strip\<close>\<close>

definition b64_alphabet :: string where
  "b64_alphabet = ''ABCDEFGHIJKLMNOPQRSTUVWXYZabcdefghijklmnopqrstuvwxyz0123456789+/''"

definition b64_char :: "nat \<Rightarrow> char" where
  "b64_char n = b64_alphabet ! (n mod 64)"

text \<open>RFC 4648 base 64 with padding: three bytes become four characters of six bits
  each; a last group of one or two bytes is padded with \<open>=\<close>. The result is ASCII, so
  \<open>.decode('utf-8')\<close> changes nothing.\<close>

fun b64encode :: "bytes \<Rightarrow> string" where
  "b64encode [] = []"
| "b64encode [a] =
     (let x = unat a in
      [b64_char (x div 4), b64_char ((x mod 4) * 16), CHR ''='', CHR ''=''])"
| "b64encode [a, b] =
     (let x = unat a; y = unat b in
      [b64_char (x div 4), b64_char ((x mod 4) * 16 + y div 16),
       b64_char ((y mod 16) * 4), CHR ''=''])"
| "b64encode (a # b # c # rest) =
     (let x = unat a; y = unat b; z = unat c in
      [b64_char (x div 4), b64_char ((x mod 4) * 16 + y div 16),
       b64_char ((y mod 16) * 4 + z div 64), b64_char (z mod 64)] @ b64encode rest)"

text \<open>\<open>str.isspace\<close> on code points below 256: tab to carriage return, the four
  separators \<open>0x1c\<close> to \<open>0x1f\<close>, space, next line (\<open>0x85\<close>), no-break space (\<open>0xa0\<close>).\<close>

definition isspace :: "char \<Rightarrow> bool" where
  "isspace c =
     (let n = (of_char c :: nat) in
      (9 \<le> n \<and> n \<le> 13) \<or> (28 \<le> n \<and> n \<le> 32) \<or> n = 133 \<or> n = 160)"

definition strip :: "string \<Rightarrow> string" where
  "strip s = rev (dropWhile isspace (rev (dropWhile isspace s)))"

subsection \<open>The generator\<close>

record generator =
  api_key :: string
  client :: openai_client
  cataas_base_url :: string

text \<open>\<open>__init__\<close> (lines 56-88). The argument is \<open>Optional[str]\<close>; both tests are
  truthiness tests, so \<open>None\<close> and the empty string take the same branch.\<close>

definition init ::
  "'img world \<Rightarrow> string option \<Rightarrow> 'img event list \<Rightarrow> (value_error + generator) \<times> 'img event list"
where
  "init w api_key_arg tr =
     (let key = (if truthy api_key_arg then api_key_arg else getenv w ''OPENAI_API_KEY'') in
      case key of
        None \<Rightarrow>
          (Inl (ValueError ''OPENAI_API_KEY is required. Provide it as a parameter or set the environment variable.''), tr)
      | Some k \<Rightarrow>
          if k = [] then
            (Inl (ValueError ''OPENAI_API_KEY is required. Provide it as a parameter or set the environment variable.''), tr)
          else
            (Inr \<lparr>api_key = k, client = OpenAI k, cataas_base_url = ''https://cataas.com''\<rparr>,
             tr @ [OpenAIInit k]))"

text \<open>\<open>fetch_random_cat_image\<close> (lines 108-125): one \<open>requests.get\<close>; a
  \<open>RequestException\<close> from the call or from \<open>raise_for_status\<close> gives \<open>None\<close>.\<close>

definition fetch_random_cat_image ::
  "'img world \<Rightarrow> generator \<Rightarrow> 'img event list \<Rightarrow> bytes option \<times> 'img event list"
where
  "fetch_random_cat_image w g tr =
     (let url = cataas_base_url g @ ''/cat'';
          tr' = tr @ [HttpGet url 10]
      in case http_get w url 10 of
           Inl e \<Rightarrow> (None, tr')
         | Inr resp \<Rightarrow>
             (case raise_for_status resp of
                Inl e \<Rightarrow> (None, tr')
              | Inr _ \<Rightarrow> (Some (content resp), tr')))"

text \<open>\<open>save_image_locally\<close> (lines 152-174): \<open>Image.open\<close> then \<open>image.save\<close>; the
  handler prints and re-raises, so an exception of either call is the method's own.\<close>

definition default_filename :: string where
  "default_filename = ''current_cat.jpg''"

definition save_image_locally ::
  "'img world \<Rightarrow> bytes \<Rightarrow> string \<Rightarrow> 'img event list \<Rightarrow> (pil_error + string) \<times> 'img event list"
where
  "save_image_locally w image_data filename tr =
     (let tr1 = tr @ [ImageOpen image_data]
      in case image_open w image_data of
           Inl e \<Rightarrow> (Inl e, tr1)
         | Inr img \<Rightarrow>
             (let tr2 = tr1 @ [ImageSave img filename]
              in case image_save w img filename of
                   Inl e \<Rightarrow> (Inl e, tr2)
                 | Inr _ \<Rightarrow> (Inr filename, tr2)))"

text \<open>\<open>describe_image\<close> (lines 198-240). The request is built from the bytes alone;
  any exception (an API error, an empty \<open>choices\<close>) gives \<open>None\<close>.\<close>

definition describe_prompt :: string where
  "describe_prompt = ''Please describe this cat image in detail. Focus on the cat's appearance, pose, expression, surroundings, and any notable or amusing features. Be descriptive but concise.''"

definition describe_request :: "bytes \<Rightarrow> chat_request" where
  "describe_request image_data =
     (let base64_image = b64encode image_data in
      \<lparr>model = ''gpt-4o-mini'',
       messages =
         [Message ''user''
            (Parts [TextPart describe_prompt,
                    ImageUrlPart (''data:image/jpeg;base64,'' @ base64_image)])],
       max_tokens = Some 300,
       temperature = None\<rparr>)"

definition describe_image ::
  "'img world \<Rightarrow> generator \<Rightarrow> bytes \<Rightarrow> 'img event list \<Rightarrow> string option \<times> 'img event list"
where
  "describe_image w g image_data tr =
     (let request = describe_request image_data;
          tr' = tr @ [ChatCreate (client g) request]
      in case chat_completions_create w (client g) request of
           Inl e \<Rightarrow> (None, tr')
         | Inr choices \<Rightarrow>
             (case choices of
                [] \<Rightarrow> (None, tr')
              | description # _ \<Rightarrow> (description, tr')))"

text \<open>\<open>generate_funny_tagline\<close> (lines 264-294). \<open>content.strip()\<close> on a \<open>None\<close>
  content raises \<open>AttributeError\<close>, which the handler turns into \<open>None\<close> as well.\<close>

definition system_prompt :: string where
  "system_prompt = ''You are a witty copywriter who creates hilarious, clever taglines for cat photos. Your taglines should be punny, relatable, and capture the essence of internet cat humor. Keep them under 20 words and make them memorable.''"

definition user_prompt :: "string \<Rightarrow> string" where
  "user_prompt image_description =
     ''Based on this cat image description, create a funny tagline:'' @ [CHR 0x0A, CHR 0x0A]
     @ image_description @ [CHR 0x0A, CHR 0x0A]
     @ ''Make it punny and internet-cat-meme worthy!''"

definition tagline_request :: "string \<Rightarrow> chat_request" where
  "tagline_request image_description =
     \<lparr>model = ''gpt-4o-mini'',
      messages =
        [Message ''system'' (Text system_prompt),
         Message ''user'' (Text (user_prompt image_description))],
      max_tokens = Some 100,
      temperature = Some (9 / 10)\<rparr>"

definition generate_funny_tagline ::
  "'img world \<Rightarrow> generator \<Rightarrow> string \<Rightarrow> 'img event list \<Rightarrow> string option \<times> 'img event list"
where
  "generate_funny_tagline w g image_description tr =
     (let request = tagline_request image_description;
          tr' = tr @ [ChatCreate (client g) request]
      in case chat_completions_create w (client g) request of
           Inl e \<Rightarrow> (None, tr')
         | Inr choices \<Rightarrow>
             (case choices of
                [] \<Rightarrow> (None, tr')
              | None # _ \<Rightarrow> (None, tr')
              | Some reply # _ \<Rightarrow> (Some (strip reply), tr')))"

text \<open>\<open>run_full_pipeline\<close> (lines 326-360). A failed step returns a dictionary with
  the single key \<open>error\<close>; the full result has four keys.\<close>

definition run_full_pipeline ::
  "'img world \<Rightarrow> generator \<Rightarrow> 'img event list \<Rightarrow> result_dict \<times> 'img event list"
where
  "run_full_pipeline w g tr =
     (case fetch_random_cat_image w g tr of
        (image_data_opt, tr1) \<Rightarrow>
          if \<not> truthy image_data_opt then
            ([''error'' \<mapsto> Str ''Failed to fetch cat image''], tr1)
          else
            (let image_data = the image_data_opt in
             case save_image_locally w image_data default_filename tr1 of
               (Inl e, tr2) \<Rightarrow> ([''error'' \<mapsto> Str ''Failed to save cat image''], tr2)
             | (Inr image_path, tr2) \<Rightarrow>
                 (case describe_image w g image_data tr2 of
                    (description_opt, tr3) \<Rightarrow>
                      if \<not> truthy description_opt then
                        ([''error'' \<mapsto> Str ''Failed to describe cat image''], tr3)
                      else
                        (let description = the description_opt in
                         case generate_funny_tagline w g description tr3 of
                           (tagline_opt, tr4) \<Rightarrow>
                             if \<not> truthy tagline_opt then
                               ([''error'' \<mapsto> Str ''Failed to generate tagline''], tr4)
                             else
                               ([''image_path'' \<mapsto> Str image_path,
                                 ''description'' \<mapsto> Str description,
                                 ''tagline'' \<mapsto> Str (the tagline_opt),
                                 ''success'' \<mapsto> Bool True], tr4)))))"

subsection \<open>Concrete collaborators for evaluation\<close>

text \<open>A world in which everything works: the image service answers 200 with a JPEG
  header, Pillow accepts data that starts with the JPEG marker, the chat model answers the
  vision request (300 tokens) with a description and the text request with a tagline
  wrapped in whitespace.\<close>

definition jpeg_bytes :: bytes where
  "jpeg_bytes = [0xFF, 0xD8, 0xFF, 0xE0]"

definition png_bytes :: bytes where
  "png_bytes = [0x89, 0x50, 0x4E, 0x47, 0x0D, 0x0A, 0x1A, 0x0A]"

definition garbage_bytes :: bytes where
  "garbage_bytes = [0x00, 0x01, 0x02, 0x03, 0x04]"

definition tabby :: string where
  "tabby = ''A tabby cat mid-yawn on a windowsill''"

definition demo_world :: "string world" where
  "demo_world =
     \<lparr>getenv = [''OPENAI_API_KEY'' \<mapsto> ''sk-env''],
      http_get = (\<lambda>url timeout.
        if url = ''https://cataas.com/cat'' then Inr \<lparr>status_code = 200, content = jpeg_bytes\<rparr>
        else Inl ConnectionError),
      image_open = (\<lambda>data.
        if take 3 data = [0xFF, 0xD8, 0xFF] then Inr ''JPEG'' else Inl UnidentifiedImageError),
      image_save = (\<lambda>img filename. Inr ()),
      chat_completions_create = (\<lambda>c request.
        if max_tokens request = Some 300 then Inr [Some tabby]
        else Inr [Some (''  Yawn and order!'' @ [CHR 0x0A])])\<rparr>"

definition demo_generator :: generator where
  "demo_generator =
     \<lparr>api_key = ''sk-env'', client = OpenAI ''sk-env'', cataas_base_url = ''https://cataas.com''\<rparr>"

text \<open>The same world with another answer of the image service, and with a vision call
  that answers the empty string.\<close>

definition serving :: "(requests_error + response) \<Rightarrow> string world" where
  "serving answer = demo_world\<lparr>http_get := (\<lambda>url timeout. answer)\<rparr>"

definition mute_world :: "string world" where
  "mute_world =
     demo_world\<lparr>chat_completions_create := (\<lambda>c request.
       if max_tokens request = Some 300 then Inr [Some []] else Inr [Some ''unused''])\<rparr>"

section \<open>Properties\<close>

lemmas pipeline_defs =
  run_full_pipeline_def fetch_random_cat_image_def save_image_locally_def
  describe_image_def generate_funny_tagline_def raise_for_status_def Let_def

lemmas demo_defs =
  demo_world_def demo_generator_def serving_def mute_world_def jpeg_bytes_def png_bytes_def
  garbage_bytes_def tabby_def default_filename_def describe_request_def tagline_request_def
  strip_def isspace_def

subsection \<open>\<open>str.strip\<close> and \<open>base64.b64encode\<close>\<close>

text \<open>\<open>strip\<close> removes a prefix and a suffix made of whitespace only, and what is left
  neither starts nor ends with whitespace.\<close>

lemma rev_dropWhile_split:
  "xs = rev (dropWhile P (rev xs)) @ rev (takeWhile P (rev xs))"
proof -
  have "xs = rev (rev xs)" by simp
  also have "\<dots> = rev (takeWhile P (rev xs) @ dropWhile P (rev xs))"
    by (simp only: takeWhile_dropWhile_id)
  also have "\<dots> = rev (dropWhile P (rev xs)) @ rev (takeWhile P (rev xs))"
    by (simp only: rev_append)
  finally show ?thesis .
qed

lemma strip_decomp:
  "\<exists>pre suf. s = pre @ strip s @ suf \<and> (\<forall>c\<in>set pre. isspace c) \<and> (\<forall>c\<in>set suf. isspace c)"
proof -
  define t where "t = dropWhile isspace s"
  have s: "s = takeWhile isspace s @ t"
    by (simp add: t_def)
  have t: "t = strip s @ rev (takeWhile isspace (rev t))"
    unfolding strip_def t_def by (rule rev_dropWhile_split)
  have pre: "\<forall>c\<in>set (takeWhile isspace s). isspace c"
    by (auto dest: set_takeWhileD)
  have suf: "\<forall>c\<in>set (rev (takeWhile isspace (rev t))). isspace c"
    by (auto dest: set_takeWhileD)
  from s t have "s = takeWhile isspace s @ strip s @ rev (takeWhile isspace (rev t))"
    by simp
  with pre suf show ?thesis by blast
qed

lemma strip_ends:
  assumes "strip s \<noteq> []"
  shows "\<not> isspace (hd (strip s)) \<and> \<not> isspace (last (strip s))"
proof -
  define t where "t = dropWhile isspace s"
  have st: "strip s = rev (dropWhile isspace (rev t))"
    by (simp add: strip_def t_def)
  with assms have ne: "dropWhile isspace (rev t) \<noteq> []" by simp
  then have "\<not> isspace (hd (dropWhile isspace (rev t)))"
    by (rule hd_dropWhile)
  with ne have l: "\<not> isspace (last (strip s))"
    by (simp add: st last_rev)
  have t: "t = strip s @ rev (takeWhile isspace (rev t))"
    unfolding st by (rule rev_dropWhile_split)
  with assms have "t \<noteq> []" by auto
  then have "\<not> isspace (hd t)"
    unfolding t_def by (rule hd_dropWhile)
  moreover from t assms have "hd t = hd (strip s)"
    by (metis hd_append2)
  ultimately show ?thesis using l by simp
qed

text \<open>The encoder against the test vectors of RFC 4648, and the length of its output.\<close>

lemma length_b64encode: "length (b64encode bs) = 4 * ((length bs + 2) div 3)"
proof (induction bs rule: b64encode.induct)
  case (4 a b c rest)
  have "(length (a # b # c # rest) + 2) div 3 = Suc ((length rest + 2) div 3)"
    by simp
  with 4 show ?case by (simp add: Let_def)
qed (simp_all add: Let_def)

lemma b64_vectors:
  "b64encode (map of_char ''f'') = ''Zg==''"
  "b64encode (map of_char ''fo'') = ''Zm8=''"
  "b64encode (map of_char ''foo'') = ''Zm9v''"
  "b64encode (map of_char ''foobar'') = ''Zm9vYmFy''"
  by (simp_all add: b64_char_def b64_alphabet_def)


subsection \<open>The five ways through \<open>run_full_pipeline\<close>\<close>

lemma pipeline_fetch_failed:
  assumes "fetch_random_cat_image w g tr = (image_data_opt, tr1)" "\<not> truthy image_data_opt"
  shows "run_full_pipeline w g tr = ([''error'' \<mapsto> Str ''Failed to fetch cat image''], tr1)"
  using assms by (simp add: run_full_pipeline_def)

lemma pipeline_save_failed:
  assumes "fetch_random_cat_image w g tr = (Some image_data, tr1)" "image_data \<noteq> []"
    and "save_image_locally w image_data default_filename tr1 = (Inl e, tr2)"
  shows "run_full_pipeline w g tr = ([''error'' \<mapsto> Str ''Failed to save cat image''], tr2)"
  using assms by (simp add: run_full_pipeline_def)

lemma pipeline_describe_failed:
  assumes "fetch_random_cat_image w g tr = (Some image_data, tr1)" "image_data \<noteq> []"
    and "save_image_locally w image_data default_filename tr1 = (Inr image_path, tr2)"
    and "describe_image w g image_data tr2 = (description_opt, tr3)" "\<not> truthy description_opt"
  shows "run_full_pipeline w g tr = ([''error'' \<mapsto> Str ''Failed to describe cat image''], tr3)"
  using assms by (simp add: run_full_pipeline_def)

lemma pipeline_tagline_failed:
  assumes "fetch_random_cat_image w g tr = (Some image_data, tr1)" "image_data \<noteq> []"
    and "save_image_locally w image_data default_filename tr1 = (Inr image_path, tr2)"
    and "describe_image w g image_data tr2 = (Some description, tr3)" "description \<noteq> []"
    and "generate_funny_tagline w g description tr3 = (tagline_opt, tr4)" "\<not> truthy tagline_opt"
  shows "run_full_pipeline w g tr = ([''error'' \<mapsto> Str ''Failed to generate tagline''], tr4)"
  using assms by (simp add: run_full_pipeline_def)

lemma pipeline_succeeded:
  assumes "fetch_random_cat_image w g tr = (Some image_data, tr1)" "image_data \<noteq> []"
    and "save_image_locally w image_data default_filename tr1 = (Inr image_path, tr2)"
    and "describe_image w g image_data tr2 = (Some description, tr3)" "description \<noteq> []"
    and "generate_funny_tagline w g description tr3 = (Some tagline, tr4)" "tagline \<noteq> []"
  shows "run_full_pipeline w g tr =
           ([''image_path'' \<mapsto> Str image_path, ''description'' \<mapsto> Str description,
             ''tagline'' \<mapsto> Str tagline, ''success'' \<mapsto> Bool True], tr4)"
  using assms by (simp add: run_full_pipeline_def)

lemma save_image_locally_path:
  "save_image_locally w image_data filename tr = (Inr image_path, tr') \<Longrightarrow> image_path = filename"
  by (auto simp: save_image_locally_def Let_def split: sum.splits)

subsection \<open>The shape of the result\<close>

text \<open>
  C1. Whatever the collaborators answer, \<open>run_full_pipeline\<close> returns one of two
  dictionaries. Either it has exactly the keys \<open>image_path\<close>, \<open>description\<close>, \<open>tagline\<close>
  and \<open>success\<close>, with \<open>success\<close> true, a non-empty description and tagline, and no
  \<open>error\<close> key; or it has the single key \<open>error\<close> with one of the four step messages, so no
  content field, and its success flag reads false. The failed dictionary has no \<open>success\<close>
  key: the flag is what \<open>result.get("success")\<close> gives, which is how both callers read it.
\<close>

theorem pipeline_result_shape:
  "\<exists>d t m.
     (fst (run_full_pipeline w g tr) =
        [''image_path'' \<mapsto> Str ''current_cat.jpg'', ''description'' \<mapsto> Str d,
         ''tagline'' \<mapsto> Str t, ''success'' \<mapsto> Bool True]
      \<and> d \<noteq> [] \<and> t \<noteq> []
      \<and> get_success (fst (run_full_pipeline w g tr))
      \<and> fst (run_full_pipeline w g tr) ''error'' = None)
   \<or> (fst (run_full_pipeline w g tr) = [''error'' \<mapsto> Str m]
      \<and> m \<in> {''Failed to fetch cat image'', ''Failed to save cat image'',
               ''Failed to describe cat image'', ''Failed to generate tagline''}
      \<and> \<not> get_success (fst (run_full_pipeline w g tr)))"
proof -
  let ?r = "fst (run_full_pipeline w g tr)"
  have failed: ?thesis
    if "run_full_pipeline w g tr = ([''error'' \<mapsto> Str m], tr')"
      and "m \<in> {''Failed to fetch cat image'', ''Failed to save cat image'',
                 ''Failed to describe cat image'', ''Failed to generate tagline''}"
    for m tr'
  proof -
    from that(1) have "?r = [''error'' \<mapsto> Str m]" by simp
    moreover from this have "\<not> get_success ?r" by (simp add: get_success_def)
    ultimately show ?thesis using that(2)
      by (intro exI [of _ m] disjI2 conjI)
  qed
  obtain a tr1 where f: "fetch_random_cat_image w g tr = (a, tr1)"
    by (cases "fetch_random_cat_image w g tr")
  show ?thesis
  proof (cases "truthy a")
    case False
    from pipeline_fetch_failed [OF f False] show ?thesis
      by (rule failed) simp
  next
    case True
    then obtain image_data where a: "a = Some image_data" and ne: "image_data \<noteq> []"
      by (cases a) auto
    note f' = f [unfolded a]
    obtain s tr2 where sv: "save_image_locally w image_data default_filename tr1 = (s, tr2)"
      by (cases "save_image_locally w image_data default_filename tr1")
    show ?thesis
    proof (cases s)
      case (Inl e)
      from pipeline_save_failed [OF f' ne sv [unfolded Inl]] show ?thesis
        by (rule failed) simp
    next
      case (Inr image_path)
      note sv' = sv [unfolded Inr]
      from save_image_locally_path [OF sv'] have p: "image_path = ''current_cat.jpg''"
        by (simp add: default_filename_def)
      obtain b tr3 where d: "describe_image w g image_data tr2 = (b, tr3)"
        by (cases "describe_image w g image_data tr2")
      show ?thesis
      proof (cases "truthy b")
        case False
        from pipeline_describe_failed [OF f' ne sv' d False] show ?thesis
          by (rule failed) simp
      next
        case True
        then obtain description where b: "b = Some description" and dne: "description \<noteq> []"
          by (cases b) auto
        note d' = d [unfolded b]
        obtain c tr4 where t: "generate_funny_tagline w g description tr3 = (c, tr4)"
          by (cases "generate_funny_tagline w g description tr3")
        show ?thesis
        proof (cases "truthy c")
          case False
          from pipeline_tagline_failed [OF f' ne sv' d' dne t False] show ?thesis
            by (rule failed) simp
        next
          case True
          then obtain tagline where c: "c = Some tagline" and tne: "tagline \<noteq> []"
            by (cases c) auto
          from pipeline_succeeded [OF f' ne sv' d' dne t [unfolded c] tne] p
          have r: "?r = [''image_path'' \<mapsto> Str ''current_cat.jpg'',
                        ''description'' \<mapsto> Str description,
                        ''tagline'' \<mapsto> Str tagline, ''success'' \<mapsto> Bool True]"
            by simp
          then have "get_success ?r" and "?r ''error'' = None"
            by (simp_all add: get_success_def)
          with r dne tne show ?thesis
            by (intro exI [of _ description] exI [of _ tagline] exI [of _ "[]"] disjI1 conjI)
        qed
      qed
    qed
  qed
qed

theorem pipeline_result_shape_witness:
  "get_success (fst (run_full_pipeline demo_world demo_generator []))
   \<and> fst (run_full_pipeline demo_world demo_generator []) ''tagline'' = Some (Str ''Yawn and order!'')
   \<and> fst (run_full_pipeline mute_world demo_generator []) = [''error'' \<mapsto> Str ''Failed to describe cat image'']"
  using pipeline_result_shape [of demo_world demo_generator "[]"]
  by (simp add: pipeline_defs demo_defs get_success_def)

subsection \<open>What each step adds to the trace\<close>

lemma fetch_trace:
  "snd (fetch_random_cat_image w g tr) = tr @ [HttpGet (cataas_base_url g @ ''/cat'') 10]"
  by (simp add: fetch_random_cat_image_def Let_def split: sum.splits)

lemma fetch_result:
  "fst (fetch_random_cat_image w g tr) =
     (case http_get w (cataas_base_url g @ ''/cat'') 10 of
        Inl e \<Rightarrow> None
      | Inr r \<Rightarrow> if 400 \<le> status_code r \<and> status_code r < 600 then None else Some (content r))"
  by (simp add: fetch_random_cat_image_def raise_for_status_def Let_def split: sum.splits)

lemma save_rejected:
  "image_open w image_data = Inl e \<Longrightarrow>
   save_image_locally w image_data filename tr = (Inl e, tr @ [ImageOpen image_data])"
  by (simp add: save_image_locally_def)

lemma save_trace:
  "save_image_locally w image_data filename tr = (Inr image_path, tr') \<Longrightarrow>
   \<exists>img. tr' = tr @ [ImageOpen image_data, ImageSave img filename]"
  by (auto simp: save_image_locally_def Let_def split: sum.splits)

lemma describe_trace:
  "snd (describe_image w g image_data tr) = tr @ [ChatCreate (client g) (describe_request image_data)]"
  by (simp add: describe_image_def Let_def split: sum.splits list.splits)

lemma tagline_trace:
  "snd (generate_funny_tagline w g description tr) =
     tr @ [ChatCreate (client g) (tagline_request description)]"
  by (simp add: generate_funny_tagline_def Let_def split: sum.splits list.splits option.splits)

lemma describe_is_not_caption: "describe_request image_data \<noteq> tagline_request description"
  by (simp add: describe_request_def tagline_request_def Let_def)

subsection \<open>Bytes that are not an image\<close>

text \<open>
  C2, as stated, at the empty byte string. The image service answers 200 with an empty
  body; \<open>fetch_random_cat_image\<close> returns \<open>b""\<close>, which Pillow cannot identify, but the
  pipeline tests \<open>not image_data\<close> before the persist step, so the run ends with the fetch
  message and not with "Failed to save cat image".
\<close>

theorem empty_body_is_a_fetch_failure:
  "fst (fetch_random_cat_image (serving (Inr \<lparr>status_code = 200, content = []\<rparr>)) demo_generator [])
     = Some []
   \<and> image_open (serving (Inr \<lparr>status_code = 200, content = []\<rparr>)) [] = Inl UnidentifiedImageError
   \<and> fst (run_full_pipeline (serving (Inr \<lparr>status_code = 200, content = []\<rparr>)) demo_generator [])
     = [''error'' \<mapsto> Str ''Failed to fetch cat image'']
   \<and> fst (run_full_pipeline (serving (Inr \<lparr>status_code = 200, content = []\<rparr>)) demo_generator [])
        ''error'' \<noteq> Some (Str ''Failed to save cat image'')"
  by (simp add: pipeline_defs demo_defs)

text \<open>
  C2, amended. When \<open>Image.open\<close> rejects the bytes, \<open>save_image_locally\<close> raises that same
  exception (it returns no value). When the fetch step yields such bytes and they are not
  empty, \<open>run_full_pipeline\<close> returns the dictionary \<open>{error: "Failed to save cat image"}\<close>,
  a message of its own and none of the three collaborator messages, after exactly the GET
  and the \<open>Image.open\<close> call: nothing is written and no chat request is sent.
\<close>

theorem non_image_bytes_rejected:
  assumes "image_open w image_data = Inl e"
  shows "fst (save_image_locally w image_data filename tr) = Inl e
    \<and> (fst (fetch_random_cat_image w g tr) = Some image_data \<and> image_data \<noteq> [] \<longrightarrow>
         run_full_pipeline w g tr =
           ([''error'' \<mapsto> Str ''Failed to save cat image''],
            tr @ [HttpGet (cataas_base_url g @ ''/cat'') 10, ImageOpen image_data]))"
proof (intro conjI impI)
  show "fst (save_image_locally w image_data filename tr) = Inl e"
    by (simp add: save_rejected [OF assms])
next
  assume a: "fst (fetch_random_cat_image w g tr) = Some image_data \<and> image_data \<noteq> []"
  let ?tr1 = "tr @ [HttpGet (cataas_base_url g @ ''/cat'') 10]"
  from a fetch_trace [of w g tr] have f: "fetch_random_cat_image w g tr = (Some image_data, ?tr1)"
    by (simp add: prod_eq_iff)
  from a have ne: "image_data \<noteq> []" by simp
  from pipeline_save_failed [OF f ne save_rejected [OF assms]]
  show "run_full_pipeline w g tr =
           ([''error'' \<mapsto> Str ''Failed to save cat image''],
            tr @ [HttpGet (cataas_base_url g @ ''/cat'') 10, ImageOpen image_data])"
    by simp
qed

theorem non_image_bytes_rejected_witness:
  "fst (save_image_locally (serving (Inr \<lparr>status_code = 200, content = garbage_bytes\<rparr>))
          garbage_bytes default_filename []) = Inl UnidentifiedImageError
   \<and> run_full_pipeline (serving (Inr \<lparr>status_code = 200, content = garbage_bytes\<rparr>)) demo_generator []
     = ([''error'' \<mapsto> Str ''Failed to save cat image''],
        [HttpGet ''https://cataas.com/cat'' 10, ImageOpen garbage_bytes])"
proof -
  let ?w = "serving (Inr \<lparr>status_code = 200, content = garbage_bytes\<rparr>)"
  have h: "image_open ?w garbage_bytes = Inl UnidentifiedImageError"
    by (simp add: demo_defs)
  have f: "fst (fetch_random_cat_image ?w demo_generator []) = Some garbage_bytes \<and> garbage_bytes \<noteq> []"
    by (simp add: pipeline_defs demo_defs)
  from non_image_bytes_rejected [OF h, of default_filename "[]" demo_generator] f
  show ?thesis by (simp add: demo_generator_def)
qed

subsection \<open>A failed fetch\<close>

text \<open>
  C3, as stated, at a status that is neither 2xx nor an error for \<open>raise_for_status\<close>. The
  service answers 300 with a body: no exception is raised, the fetch step returns the
  body, and the run goes on to the persist step and, here, to full success. Also, the
  message of a failed fetch is "Failed to fetch cat image", not "failed to fetch image".
\<close>

theorem unraised_status_continues:
  "fst (fetch_random_cat_image (serving (Inr \<lparr>status_code = 300, content = jpeg_bytes\<rparr>)) demo_generator [])
     = Some jpeg_bytes
   \<and> get_success (fst (run_full_pipeline (serving (Inr \<lparr>status_code = 300, content = jpeg_bytes\<rparr>)) demo_generator []))
   \<and> ImageOpen jpeg_bytes \<in> set (snd (run_full_pipeline (serving (Inr \<lparr>status_code = 300, content = jpeg_bytes\<rparr>)) demo_generator []))
   \<and> fst (run_full_pipeline (serving (Inl Timeout)) demo_generator []) ''error''
     \<noteq> Some (Str ''failed to fetch image'')"
  by (simp add: pipeline_defs demo_defs get_success_def)

text \<open>
  C3, amended. When \<open>requests.get\<close> raises (a timeout, a connection error) or the status
  is 4xx or 5xx, \<open>fetch_random_cat_image\<close> returns \<open>None\<close> and no exception, and
  \<open>run_full_pipeline\<close> returns \<open>{error: "Failed to fetch cat image"}\<close> having made the one
  GET call and nothing else: no persist, describe or caption step.
\<close>

theorem fetch_failure_short_circuits:
  assumes "(\<exists>e. http_get w (cataas_base_url g @ ''/cat'') 10 = Inl e)
     \<or> (\<exists>r. http_get w (cataas_base_url g @ ''/cat'') 10 = Inr r
            \<and> 400 \<le> status_code r \<and> status_code r < 600)"
  shows "fetch_random_cat_image w g tr = (None, tr @ [HttpGet (cataas_base_url g @ ''/cat'') 10])
    \<and> run_full_pipeline w g tr =
        ([''error'' \<mapsto> Str ''Failed to fetch cat image''],
         tr @ [HttpGet (cataas_base_url g @ ''/cat'') 10])"
proof -
  from assms have "fst (fetch_random_cat_image w g tr) = None"
    by (auto simp: fetch_result)
  with fetch_trace [of w g tr]
  have f: "fetch_random_cat_image w g tr = (None, tr @ [HttpGet (cataas_base_url g @ ''/cat'') 10])"
    by (simp add: prod_eq_iff)
  from pipeline_fetch_failed [OF f] f show ?thesis by simp
qed

theorem fetch_failure_short_circuits_witness:
  "run_full_pipeline (serving (Inl Timeout)) demo_generator []
     = ([''error'' \<mapsto> Str ''Failed to fetch cat image''], [HttpGet ''https://cataas.com/cat'' 10])
   \<and> run_full_pipeline (serving (Inr \<lparr>status_code = 503, content = garbage_bytes\<rparr>)) demo_generator []
     = ([''error'' \<mapsto> Str ''Failed to fetch cat image''], [HttpGet ''https://cataas.com/cat'' 10])"
proof -
  have "\<exists>e. http_get (serving (Inl Timeout)) (cataas_base_url demo_generator @ ''/cat'') 10 = Inl e"
    by (simp add: demo_defs)
  then have a: "run_full_pipeline (serving (Inl Timeout)) demo_generator []
     = ([''error'' \<mapsto> Str ''Failed to fetch cat image''], [HttpGet ''https://cataas.com/cat'' 10])"
    using fetch_failure_short_circuits [of "serving (Inl Timeout)" demo_generator "[]"]
    by (simp add: demo_generator_def)
  let ?w = "serving (Inr \<lparr>status_code = 503, content = garbage_bytes\<rparr>)"
  have "\<exists>r. http_get ?w (cataas_base_url demo_generator @ ''/cat'') 10 = Inr r
            \<and> 400 \<le> status_code r \<and> status_code r < 600"
    by (simp add: demo_defs)
  then have "run_full_pipeline ?w demo_generator []
     = ([''error'' \<mapsto> Str ''Failed to fetch cat image''], [HttpGet ''https://cataas.com/cat'' 10])"
    using fetch_failure_short_circuits [of ?w demo_generator "[]"]
    by (simp add: demo_generator_def)
  with a show ?thesis by simp
qed

subsection \<open>A failed description\<close>

text \<open>
  C4. In a run where the fetch step yields non-empty bytes and the persist step returns a
  path, a describe step that yields \<open>None\<close> or the empty string makes
  \<open>run_full_pipeline\<close> return \<open>{error: "Failed to describe cat image"}\<close>. The run's calls
  are the GET, \<open>Image.open\<close>, \<open>image.save\<close> and the vision request, in this order; no
  request of \<open>generate_funny_tagline\<close> is among them, for any description.
\<close>

theorem describe_failure_skips_caption:
  assumes f: "fetch_random_cat_image w g tr = (Some image_data, tr1)" and ne: "image_data \<noteq> []"
    and sv: "save_image_locally w image_data default_filename tr1 = (Inr image_path, tr2)"
    and d: "\<not> truthy (fst (describe_image w g image_data tr2))"
  shows "fst (run_full_pipeline w g tr) = [''error'' \<mapsto> Str ''Failed to describe cat image'']
    \<and> \<not> get_success (fst (run_full_pipeline w g tr))
    \<and> (\<exists>img. snd (run_full_pipeline w g tr) =
          tr @ [HttpGet (cataas_base_url g @ ''/cat'') 10, ImageOpen image_data,
                ImageSave img default_filename,
                ChatCreate (client g) (describe_request image_data)])
    \<and> (\<forall>description.
          ChatCreate (client g) (tagline_request description)
            \<notin> set (drop (length tr) (snd (run_full_pipeline w g tr))))"
proof -
  let ?get = "HttpGet (cataas_base_url g @ ''/cat'') 10 :: 'a event"
  let ?chat = "ChatCreate (client g) (describe_request image_data) :: 'a event"
  from f fetch_trace [of w g tr] have tr1: "tr1 = tr @ [?get]"
    by simp
  from save_trace [OF sv] obtain img
    where tr2: "tr2 = tr1 @ [ImageOpen image_data, ImageSave img default_filename]"
    by blast
  have dd: "describe_image w g image_data tr2 =
              (fst (describe_image w g image_data tr2), tr2 @ [?chat])"
    by (simp add: prod_eq_iff describe_trace)
  from pipeline_describe_failed [OF f ne sv dd d]
  have run: "run_full_pipeline w g tr =
               ([''error'' \<mapsto> Str ''Failed to describe cat image''],
                tr @ [?get, ImageOpen image_data, ImageSave img default_filename, ?chat])"
    by (simp add: tr1 tr2)
  then have "\<not> get_success (fst (run_full_pipeline w g tr))"
    by (simp add: get_success_def)
  moreover have "ChatCreate (client g) (tagline_request description)
                   \<notin> set (drop (length tr) (snd (run_full_pipeline w g tr)))" for description
    using describe_is_not_caption [of image_data description] by (auto simp: run)
  ultimately show ?thesis using run by auto
qed

theorem describe_failure_skips_caption_witness:
  "fst (run_full_pipeline mute_world demo_generator []) =
     [''error'' \<mapsto> Str ''Failed to describe cat image'']
   \<and> \<not> get_success (fst (run_full_pipeline mute_world demo_generator []))
   \<and> ChatCreate (OpenAI ''sk-env'') (tagline_request [])
       \<notin> set (snd (run_full_pipeline mute_world demo_generator []))"
proof -
  let ?tr1 = "[HttpGet ''https://cataas.com/cat'' 10] :: string event list"
  let ?tr2 = "?tr1 @ [ImageOpen jpeg_bytes, ImageSave ''JPEG'' ''current_cat.jpg'']"
  have f: "fetch_random_cat_image mute_world demo_generator [] = (Some jpeg_bytes, ?tr1)"
    by (simp add: fetch_random_cat_image_def raise_for_status_def demo_world_def mute_world_def
          demo_generator_def)
  have ne: "jpeg_bytes \<noteq> []" by (simp add: jpeg_bytes_def)
  have sv: "save_image_locally mute_world jpeg_bytes default_filename ?tr1 = (Inr ''current_cat.jpg'', ?tr2)"
    by (simp add: save_image_locally_def demo_world_def mute_world_def jpeg_bytes_def
          default_filename_def)
  have d: "\<not> truthy (fst (describe_image mute_world demo_generator jpeg_bytes ?tr2))"
    by (simp add: describe_image_def Let_def demo_world_def mute_world_def describe_request_def)
  from describe_failure_skips_caption [OF f ne sv d]
  show ?thesis
    by (simp add: demo_generator_def get_success_def)
qed

subsection \<open>The description reaches the caption request\<close>

text \<open>
  C5. In a run whose describe step returns a non-empty description, the last call of the
  run is the chat request of \<open>generate_funny_tagline\<close> for exactly that description, and
  the user message of that request is the fixed opening, two line feeds, the description
  unchanged, two line feeds and the fixed closing sentence.
\<close>

theorem caption_request_carries_description:
  assumes f: "fetch_random_cat_image w g tr = (Some image_data, tr1)" and ne: "image_data \<noteq> []"
    and sv: "save_image_locally w image_data default_filename tr1 = (Inr image_path, tr2)"
    and d: "describe_image w g image_data tr2 = (Some description, tr3)"
    and dne: "description \<noteq> []"
  shows "snd (run_full_pipeline w g tr) = tr3 @ [ChatCreate (client g) (tagline_request description)]
    \<and> snd (generate_funny_tagline w g description tr3) =
          tr3 @ [ChatCreate (client g) (tagline_request description)]
    \<and> messages (tagline_request description) =
          [Message ''system'' (Text system_prompt),
           Message ''user''
             (Text (''Based on this cat image description, create a funny tagline:''
                    @ [CHR 0x0A, CHR 0x0A] @ description @ [CHR 0x0A, CHR 0x0A]
                    @ ''Make it punny and internet-cat-meme worthy!''))]"
proof -
  let ?tr4 = "tr3 @ [ChatCreate (client g) (tagline_request description)]"
  obtain c where t: "generate_funny_tagline w g description tr3 = (c, ?tr4)"
    using tagline_trace [of w g description tr3]
    by (cases "generate_funny_tagline w g description tr3") simp
  have "snd (run_full_pipeline w g tr) = ?tr4"
  proof (cases "truthy c")
    case False
    from pipeline_tagline_failed [OF f ne sv d dne t False] show ?thesis by simp
  next
    case True
    then obtain tagline where c: "c = Some tagline" and tne: "tagline \<noteq> []"
      by (cases c) auto
    from pipeline_succeeded [OF f ne sv d dne t [unfolded c] tne] show ?thesis by simp
  qed
  moreover have "messages (tagline_request description) =
          [Message ''system'' (Text system_prompt),
           Message ''user''
             (Text (''Based on this cat image description, create a funny tagline:''
                    @ [CHR 0x0A, CHR 0x0A] @ description @ [CHR 0x0A, CHR 0x0A]
                    @ ''Make it punny and internet-cat-meme worthy!''))]"
    by (simp add: tagline_request_def user_prompt_def)
  ultimately show ?thesis using tagline_trace [of w g description tr3] by simp
qed

theorem caption_request_carries_description_witness:
  "last (snd (run_full_pipeline demo_world demo_generator [])) =
     ChatCreate (OpenAI ''sk-env'') (tagline_request ''A tabby cat mid-yawn on a windowsill'')
   \<and> map message_content (messages (tagline_request ''A tabby cat mid-yawn on a windowsill'')) ! 1 =
       Text (''Based on this cat image description, create a funny tagline:''
             @ [CHR 0x0A, CHR 0x0A] @ ''A tabby cat mid-yawn on a windowsill'' @ [CHR 0x0A, CHR 0x0A]
             @ ''Make it punny and internet-cat-meme worthy!'')"
proof -
  let ?tr1 = "[HttpGet ''https://cataas.com/cat'' 10] :: string event list"
  let ?tr2 = "?tr1 @ [ImageOpen jpeg_bytes, ImageSave ''JPEG'' ''current_cat.jpg'']"
  let ?tr3 = "?tr2 @ [ChatCreate (OpenAI ''sk-env'') (describe_request jpeg_bytes)]"
  have f: "fetch_random_cat_image demo_world demo_generator [] = (Some jpeg_bytes, ?tr1)"
    by (simp add: fetch_random_cat_image_def raise_for_status_def demo_world_def demo_generator_def)
  have ne: "jpeg_bytes \<noteq> []" by (simp add: jpeg_bytes_def)
  have sv: "save_image_locally demo_world jpeg_bytes default_filename ?tr1 = (Inr ''current_cat.jpg'', ?tr2)"
    by (simp add: save_image_locally_def demo_world_def jpeg_bytes_def default_filename_def)
  have d: "describe_image demo_world demo_generator jpeg_bytes ?tr2
             = (Some ''A tabby cat mid-yawn on a windowsill'', ?tr3)"
    by (simp add: describe_image_def Let_def demo_world_def demo_generator_def tabby_def
          describe_request_def)
  have dne: "''A tabby cat mid-yawn on a windowsill'' \<noteq> []" by simp
  from caption_request_carries_description [OF f ne sv d dne]
  show ?thesis by (simp add: demo_generator_def)
qed

subsection \<open>Construction\<close>

text \<open>
  C6. \<open>__init__\<close> takes a non-empty explicit argument first; without one it takes a
  non-empty \<open>OPENAI_API_KEY\<close> of the environment; with neither it raises the
  \<open>ValueError\<close> at once, having called no collaborator. Construction never makes a
  network call, and a generator that was constructed holds a non-empty key, so no failure
  for a missing credential is left for first use.
\<close>

theorem init_credential_order:
  "(\<forall>k. api_key_arg = Some k \<and> k \<noteq> [] \<longrightarrow>
      init w api_key_arg tr =
        (Inr \<lparr>api_key = k, client = OpenAI k, cataas_base_url = ''https://cataas.com''\<rparr>,
         tr @ [OpenAIInit k]))
   \<and> (\<forall>k. \<not> truthy api_key_arg \<and> getenv w ''OPENAI_API_KEY'' = Some k \<and> k \<noteq> [] \<longrightarrow>
      init w api_key_arg tr =
        (Inr \<lparr>api_key = k, client = OpenAI k, cataas_base_url = ''https://cataas.com''\<rparr>,
         tr @ [OpenAIInit k]))
   \<and> (\<not> truthy api_key_arg \<and> \<not> truthy (getenv w ''OPENAI_API_KEY'') \<longrightarrow>
      init w api_key_arg tr =
        (Inl (ValueError ''OPENAI_API_KEY is required. Provide it as a parameter or set the environment variable.''),
         tr))
   \<and> (\<forall>e \<in> set (drop (length tr) (snd (init w api_key_arg tr))). \<not> is_network_call e)
   \<and> (\<forall>g. fst (init w api_key_arg tr) = Inr g \<longrightarrow> api_key g \<noteq> [])"
proof (intro conjI allI impI)
  fix k assume "api_key_arg = Some k \<and> k \<noteq> []"
  then show "init w api_key_arg tr =
        (Inr \<lparr>api_key = k, client = OpenAI k, cataas_base_url = ''https://cataas.com''\<rparr>,
         tr @ [OpenAIInit k])"
    by (simp add: init_def)
next
  fix k assume "\<not> truthy api_key_arg \<and> getenv w ''OPENAI_API_KEY'' = Some k \<and> k \<noteq> []"
  then show "init w api_key_arg tr =
        (Inr \<lparr>api_key = k, client = OpenAI k, cataas_base_url = ''https://cataas.com''\<rparr>,
         tr @ [OpenAIInit k])"
    by (simp add: init_def)
next
  assume "\<not> truthy api_key_arg \<and> \<not> truthy (getenv w ''OPENAI_API_KEY'')"
  then show "init w api_key_arg tr =
        (Inl (ValueError ''OPENAI_API_KEY is required. Provide it as a parameter or set the environment variable.''),
         tr)"
    by (cases "getenv w ''OPENAI_API_KEY''") (simp_all add: init_def)
next
  show "\<forall>e \<in> set (drop (length tr) (snd (init w api_key_arg tr))). \<not> is_network_call e"
    by (simp add: init_def Let_def split: option.splits)
next
  fix g assume "fst (init w api_key_arg tr) = Inr g"
  then show "api_key g \<noteq> []"
    by (auto simp: init_def Let_def split: option.splits if_splits)
qed

theorem init_credential_order_witness:
  "fst (init demo_world (Some ''sk-arg'') ([] :: string event list)) =
     Inr \<lparr>api_key = ''sk-arg'', client = OpenAI ''sk-arg'', cataas_base_url = ''https://cataas.com''\<rparr>
   \<and> fst (init demo_world None ([] :: string event list)) =
     Inr \<lparr>api_key = ''sk-env'', client = OpenAI ''sk-env'', cataas_base_url = ''https://cataas.com''\<rparr>
   \<and> init (demo_world\<lparr>getenv := Map.empty\<rparr>) None ([] :: string event list) =
     (Inl (ValueError ''OPENAI_API_KEY is required. Provide it as a parameter or set the environment variable.''), [])"
  using init_credential_order [of "Some ''sk-arg''" demo_world "[]"]
    init_credential_order [of None demo_world "[]"]
    init_credential_order [of None "demo_world\<lparr>getenv := Map.empty\<rparr>" "[]"]
  by (simp add: demo_world_def)

subsection \<open>The fetch step\<close>

text \<open>
  C7, as stated, at status 300. \<open>raise_for_status\<close> raises for 4xx and 5xx only; a
  response with another status outside 2xx is returned like a 2xx one, body and all.
\<close>

theorem ungated_status_returns_body:
  "fst (fetch_random_cat_image
          (serving (Inr \<lparr>status_code = 300, content = garbage_bytes\<rparr>)) demo_generator [])
     = Some garbage_bytes"
  by (simp add: fetch_random_cat_image_def raise_for_status_def serving_def demo_world_def
        demo_generator_def)

text \<open>
  C7, amended. \<open>fetch_random_cat_image\<close> makes exactly one call,
  \<open>requests.get(base_url + "/cat", timeout=10)\<close>, whatever the answer (no retry). It
  returns the body of a 2xx response, and of any response whose status is not 4xx or 5xx;
  a 4xx or 5xx status and an exception of the call itself give \<open>None\<close>.
\<close>

theorem fetch_single_get:
  "snd (fetch_random_cat_image w g tr) = tr @ [HttpGet (cataas_base_url g @ ''/cat'') 10]
   \<and> (\<forall>r. http_get w (cataas_base_url g @ ''/cat'') 10 = Inr r
            \<and> 200 \<le> status_code r \<and> status_code r < 300 \<longrightarrow>
          fst (fetch_random_cat_image w g tr) = Some (content r))
   \<and> (\<forall>r. http_get w (cataas_base_url g @ ''/cat'') 10 = Inr r
            \<and> 400 \<le> status_code r \<and> status_code r < 600 \<longrightarrow>
          fst (fetch_random_cat_image w g tr) = None)
   \<and> (\<forall>e. http_get w (cataas_base_url g @ ''/cat'') 10 = Inl e \<longrightarrow>
          fst (fetch_random_cat_image w g tr) = None)
   \<and> (\<forall>r. http_get w (cataas_base_url g @ ''/cat'') 10 = Inr r
            \<and> (status_code r < 400 \<or> 600 \<le> status_code r) \<longrightarrow>
          fst (fetch_random_cat_image w g tr) = Some (content r))"
  by (auto simp: fetch_trace fetch_result)

theorem fetch_single_get_witness:
  "fetch_random_cat_image demo_world demo_generator [] =
     (Some jpeg_bytes, [HttpGet ''https://cataas.com/cat'' 10])
   \<and> fetch_random_cat_image (serving (Inr \<lparr>status_code = 404, content = garbage_bytes\<rparr>))
        demo_generator [] = (None, [HttpGet ''https://cataas.com/cat'' 10])
   \<and> fetch_random_cat_image (serving (Inl Timeout)) demo_generator [] =
        (None, [HttpGet ''https://cataas.com/cat'' 10])"
  using fetch_single_get [of demo_world demo_generator "[]"]
    fetch_single_get [of "serving (Inr \<lparr>status_code = 404, content = garbage_bytes\<rparr>)" demo_generator "[]"]
    fetch_single_get [of "serving (Inl Timeout)" demo_generator "[]"]
  by (simp add: prod_eq_iff serving_def demo_world_def demo_generator_def)

subsection \<open>The caption step\<close>

text \<open>
  C8. When the chat call answers with a first choice that has text content,
  \<open>generate_funny_tagline\<close> returns that text stripped: the text is a run of whitespace,
  the result, and a run of whitespace, and the result neither starts nor ends with
  whitespace. It makes one chat call, whose messages have the roles \<open>system\<close> and
  \<open>user\<close>, with \<open>max_tokens = 100\<close> and \<open>temperature = 0.9\<close>.
\<close>

theorem caption_is_stripped_reply:
  assumes "chat_completions_create w (client g) (tagline_request description) = Inr (Some reply # rest)"
  shows "generate_funny_tagline w g description tr =
           (Some (strip reply), tr @ [ChatCreate (client g) (tagline_request description)])
    \<and> (\<exists>pre suf. reply = pre @ strip reply @ suf
          \<and> (\<forall>c \<in> set pre. isspace c) \<and> (\<forall>c \<in> set suf. isspace c))
    \<and> (strip reply = [] \<or> (\<not> isspace (hd (strip reply)) \<and> \<not> isspace (last (strip reply))))
    \<and> map role (messages (tagline_request description)) = [''system'', ''user'']
    \<and> max_tokens (tagline_request description) = Some 100
    \<and> temperature (tagline_request description) = Some 0.9"
proof -
  from assms have "generate_funny_tagline w g description tr =
           (Some (strip reply), tr @ [ChatCreate (client g) (tagline_request description)])"
    by (simp add: generate_funny_tagline_def)
  moreover have "strip reply = [] \<or> (\<not> isspace (hd (strip reply)) \<and> \<not> isspace (last (strip reply)))"
    using strip_ends [of reply] by blast
  moreover have "map role (messages (tagline_request description)) = [''system'', ''user'']"
    and "max_tokens (tagline_request description) = Some 100"
    and "temperature (tagline_request description) = Some 0.9"
    by (simp_all add: tagline_request_def)
  ultimately show ?thesis using strip_decomp [of reply] by simp
qed

theorem caption_is_stripped_reply_witness:
  "generate_funny_tagline demo_world demo_generator tabby [] =
     (Some ''Yawn and order!'', [ChatCreate (OpenAI ''sk-env'') (tagline_request tabby)])
   \<and> strip (''  Yawn and order!'' @ [CHR 0x0A]) = ''Yawn and order!''"
proof -
  have h: "chat_completions_create demo_world (client demo_generator) (tagline_request tabby)
             = Inr (Some (''  Yawn and order!'' @ [CHR 0x0A]) # [])"
    by (simp add: demo_world_def tagline_request_def)
  have s: "strip (''  Yawn and order!'' @ [CHR 0x0A]) = ''Yawn and order!''"
    by (simp add: strip_def isspace_def)
  from caption_is_stripped_reply [OF h, of "[]"] s show ?thesis
    by (simp add: demo_generator_def)
qed

subsection \<open>An empty explicit credential\<close>

text \<open>
  C9. \<open>CatTaglineGenerator(api_key="")\<close> behaves as \<open>CatTaglineGenerator()\<close>: with a
  non-empty \<open>OPENAI_API_KEY\<close> in the environment it constructs a generator holding the
  environment's value, and it raises exactly when the variable is unset or empty.
\<close>

theorem empty_credential_falls_back:
  "init w (Some []) tr = init w None tr
   \<and> (\<forall>k. getenv w ''OPENAI_API_KEY'' = Some k \<and> k \<noteq> [] \<longrightarrow>
        init w (Some []) tr =
          (Inr \<lparr>api_key = k, client = OpenAI k, cataas_base_url = ''https://cataas.com''\<rparr>,
           tr @ [OpenAIInit k]))
   \<and> (getenv w ''OPENAI_API_KEY'' = None \<or> getenv w ''OPENAI_API_KEY'' = Some [] \<longrightarrow>
        init w (Some []) tr =
          (Inl (ValueError ''OPENAI_API_KEY is required. Provide it as a parameter or set the environment variable.''),
           tr))
   \<and> (\<forall>e. fst (init w (Some []) tr) = Inl e \<longrightarrow>
        getenv w ''OPENAI_API_KEY'' = None \<or> getenv w ''OPENAI_API_KEY'' = Some [])"
  by (auto simp: init_def split: option.splits)

theorem empty_credential_falls_back_witness:
  "init demo_world (Some []) ([] :: string event list) =
     (Inr \<lparr>api_key = ''sk-env'', client = OpenAI ''sk-env'', cataas_base_url = ''https://cataas.com''\<rparr>,
      [OpenAIInit ''sk-env''])
   \<and> fst (init (demo_world\<lparr>getenv := [''OPENAI_API_KEY'' \<mapsto> []]\<rparr>) (Some []) ([] :: string event list)) =
     Inl (ValueError ''OPENAI_API_KEY is required. Provide it as a parameter or set the environment variable.'')"
  using empty_credential_falls_back [of demo_world "[]"]
    empty_credential_falls_back [of "demo_world\<lparr>getenv := [''OPENAI_API_KEY'' \<mapsto> []]\<rparr>" "[]"]
  by (simp add: demo_world_def init_def)

subsection \<open>The data URL of the describe step\<close>

text \<open>
  C10. For all bytes, the one message of the vision request carries the instruction and
  an image URL that is \<open>data:image/jpeg;base64,\<close> followed by the base 64 encoding of the
  bytes, and that request is what \<open>describe_image\<close> sends. Nothing looks at the format of
  the bytes: the header of a PNG file is labelled \<open>image/jpeg\<close> as well.
\<close>

theorem describe_request_data_url:
  "messages (describe_request image_data) =
     [Message ''user''
        (Parts [TextPart describe_prompt,
                ImageUrlPart (''data:image/jpeg;base64,'' @ b64encode image_data)])]
   \<and> snd (describe_image w g image_data tr) =
       tr @ [ChatCreate (client g) (describe_request image_data)]
   \<and> length (b64encode image_data) = 4 * ((length image_data + 2) div 3)"
  by (simp add: describe_trace length_b64encode) (simp add: describe_request_def)

theorem describe_request_data_url_witness:
  "messages (describe_request png_bytes) =
     [Message ''user''
        (Parts [TextPart describe_prompt, ImageUrlPart ''data:image/jpeg;base64,iVBORw0KGgo=''])]"
  using describe_request_data_url [of png_bytes demo_world demo_generator "[]"]
  by (simp add: png_bytes_def b64_char_def b64_alphabet_def)

end
